theory Spec2Isabelle
  imports Main "HOL-Library.Word"
begin

section \<open>The configuration of the scanner and its validation (config/config.go)\<close>

subsection \<open>Data model\<close>

text \<open>
  Go strings are byte sequences, as \<^typ>\<open>string\<close> is. A slice that is only read is a list
  (a nil slice and an empty one have the same length), a Go map is a partial function.
  \<open>CvssScoreOver\<close> is a float64: the record keeps its 64 bits, which no function of this
  file reads. \<open>Optional\<close> holds values of the empty interface, which no function reads
  either: their type is left unspecified.
\<close>

typedecl any

text \<open>type Container struct\<close>

record Container =
  ContainerID :: string
  Name :: string
  Type :: string

text \<open>type ServerInfo struct\<close>

record ServerInfo =
  ServerName :: string
  User :: string
  Host :: string
  Port :: string
  KeyPath :: string
  KeyPassword :: string
  CpeNames :: "string list"
  Containers :: "string list"
  Optional :: "any list list"
  LogMsgAnsiColor :: string
  Container :: Container
  Family :: string

text \<open>type smtpConf struct\<close>

record smtpConf =
  SMTPAddr :: string
  SMTPPort :: string
  User :: string
  Password :: string
  From :: string
  To :: "string list"
  Cc :: "string list"
  SubjectPrefix :: string
  UseThisTime :: bool

text \<open>type SlackConf struct\<close>

record SlackConf =
  HookURL :: string
  Channel :: string
  IconEmoji :: string
  AuthUser :: string
  NotifyUsers :: "string list"
  Text :: string
  UseThisTime :: bool

text \<open>type Config struct\<close>

record Config =
  Debug :: bool
  DebugSQL :: bool
  Lang :: string
  Mail :: smtpConf
  Slack :: SlackConf
  Default :: ServerInfo
  Servers :: "string \<rightharpoonup> ServerInfo"
  CveDictionaryURL :: string
  CvssScoreOver :: "64 word"
  IgnoreUnscoredCves :: bool
  SSHExternal :: bool
  HTTPProxy :: string
  JSONBaseDir :: string
  CveDBPath :: string
  AwsProfile :: string
  AwsRegion :: string
  S3Bucket :: string
  AzureAccount :: string
  AzureKey :: string
  AzureContainer :: string

subsection \<open>Errors and the collaborators\<close>

text \<open>
  An error value is either made in this package by \<open>fmt.Errorf\<close> (it carries its
  formatted message) or it is the \<open>govalidator.Errors\<close> value that \<open>ValidateStruct\<close>
  returns (it carries that library's messages).
\<close>

datatype error = Errorf string | Errors "string list"

text \<open>
  \<open>ValidateStruct\<close> takes an \<open>interface{}\<close>; this package passes it a \<open>Config\<close>, a
  \<open>*smtpConf\<close> and a \<open>*SlackConf\<close>.
\<close>

datatype structs = OfConfig Config | OfSmtp smtpConf | OfSlack SlackConf

text \<open>
  The package \<open>github.com/asaskevich/govalidator\<close>, imported as \<open>valid\<close>, is not part of
  the repository. Its three functions called here are parameters of the model, with
  the result types of their Go signatures: \<open>IsFilePath\<close> returns \<open>(bool, int)\<close>,
  \<open>IsEmail\<close> returns \<open>bool\<close>, \<open>ValidateStruct\<close> returns \<open>(bool, error)\<close> where the error is
  nil (\<open>None\<close>) or an \<open>Errors\<close> value. They are functions of their argument alone.
\<close>

record valid =
  IsFilePath :: "string \<Rightarrow> bool \<times> int"
  IsEmail :: "string \<Rightarrow> bool"
  ValidateStruct :: "structs \<Rightarrow> bool \<times> string list option"

text \<open>
  The logger (logrus, imported as \<open>log\<close>) is the other collaborator: the model keeps the
  sequence of errors handed to \<open>log.Error\<close>, oldest first.
\<close>

type_synonym logger = "error list"

definition log_Error :: "logger \<Rightarrow> error \<Rightarrow> logger" where
  "log_Error lg err = lg @ [err]"

subsection \<open>checkEmails\<close>

text \<open>
  The loop of \<open>checkEmails\<close> over the remaining addresses, with the named result \<open>errs\<close>
  as accumulator: an empty address returns what has been collected so far.
\<close>

fun checkEmails_loop :: "valid \<Rightarrow> string list \<Rightarrow> error list \<Rightarrow> error list" where
  "checkEmails_loop g [] errs = errs"
| "checkEmails_loop g (addr # emails) errs =
     (if length addr = 0 then errs
      else if \<not> IsEmail g addr
      then checkEmails_loop g emails (errs @ [Errorf (''Invalid email address. email: '' @ addr)])
      else checkEmails_loop g emails errs)"

definition checkEmails :: "valid \<Rightarrow> string list \<Rightarrow> error list" where
  "checkEmails g emails = checkEmails_loop g emails []"

subsection \<open>smtpConf.Validate\<close>

definition smtpConf_Validate :: "valid \<Rightarrow> smtpConf \<Rightarrow> error list" where
  "smtpConf_Validate g c =
     (if \<not> smtpConf.UseThisTime c then []
      else
        let errs = [];
            emails = [];
            emails = emails @ [From c];
            emails = emails @ To c;
            emails = emails @ Cc c;
            emailErrs = checkEmails g emails;
            errs = (if 0 < length emailErrs then errs @ emailErrs else errs);
            errs = (if length (SMTPAddr c) = 0
                    then errs @ [Errorf ''smtpAddr must not be empty''] else errs);
            errs = (if length (SMTPPort c) = 0
                    then errs @ [Errorf ''smtpPort must not be empty''] else errs);
            errs = (if length (To c) = 0
                    then errs @ [Errorf ''To required at least one address''] else errs);
            errs = (if length (From c) = 0
                    then errs @ [Errorf ''From required at least one address''] else errs);
            err = snd (ValidateStruct g (OfSmtp c));
            errs = (case err of None \<Rightarrow> errs | Some es \<Rightarrow> errs @ [Errors es])
        in errs)"

subsection \<open>SlackConf.Validate\<close>

text \<open>\<open>strings.HasPrefix(s, prefix)\<close>: \<open>len(s) >= len(prefix) && s[0:len(prefix)] == prefix\<close>.\<close>

definition HasPrefix :: "string \<Rightarrow> string \<Rightarrow> bool" where
  "HasPrefix s p = (length p \<le> length s \<and> take (length p) s = p)"

definition SlackConf_Validate :: "valid \<Rightarrow> SlackConf \<Rightarrow> error list" where
  "SlackConf_Validate g c =
     (if \<not> SlackConf.UseThisTime c then []
      else
        let errs = [];
            errs = (if length (HookURL c) = 0
                    then errs @ [Errorf ''hookURL must not be empty''] else errs);
            errs = (if length (Channel c) = 0
                    then errs @ [Errorf ''channel must not be empty'']
                    else if \<not> (HasPrefix (Channel c) ''#'' \<or> Channel c = ''${servername}'')
                    then errs @ [Errorf (''channel's prefix must be '#', channel: '' @ Channel c)]
                    else errs);
            errs = (if length (AuthUser c) = 0
                    then errs @ [Errorf ''authUser must not be empty''] else errs);
            err = snd (ValidateStruct g (OfSlack c));
            errs = (case err of None \<Rightarrow> errs | Some es \<Rightarrow> errs @ [Errors es])
        in errs)"

subsection \<open>Config.Validate\<close>

text \<open>
  The method returns its boolean; what it hands to \<open>log.Error\<close> is its other effect, so
  the model takes the logger's state and returns it with the boolean. The receiver is
  passed by value.
\<close>

definition Config_Validate :: "valid \<Rightarrow> Config \<Rightarrow> logger \<Rightarrow> bool \<times> logger" where
  "Config_Validate g c lg =
     (let errs = [];
          errs = (if length (JSONBaseDir c) \<noteq> 0
                  then (if \<not> fst (IsFilePath g (JSONBaseDir c))
                        then errs @ [Errorf
                          (''JSON base directory must be a *Absolute* file path. jsonBaseDir: ''
                            @ JSONBaseDir c)]
                        else errs)
                  else errs);
          errs = (if length (CveDBPath c) \<noteq> 0
                  then (if \<not> fst (IsFilePath g (CveDBPath c))
                        then errs @ [Errorf
                          (''SQLite3 DB(Cve Dictionary) path must be a *Absolute* file path. dbpath: ''
                            @ CveDBPath c)]
                        else errs)
                  else errs);
          err = snd (ValidateStruct g (OfConfig c));
          errs = (case err of None \<Rightarrow> errs | Some es \<Rightarrow> errs @ [Errors es]);
          mailerrs = smtpConf_Validate g (Mail c);
          errs = (if 0 < length mailerrs then errs @ mailerrs else errs);
          slackerrs = SlackConf_Validate g (Slack c);
          errs = (if 0 < length slackerrs then errs @ slackerrs else errs);
          lg = fold (\<lambda>err lg. log_Error lg err) errs lg
      in (length errs = 0, lg))"

subsection \<open>The package variable Conf\<close>

text \<open>
  \<open>var Conf Config\<close> (config.go, line 29) is the Settings value of the process. What a
  call of \<open>Conf.Validate()\<close> can read and write is that variable and what the logger
  has received: the state below. \<open>Validate\<close> has a value receiver, so the call copies
  \<open>Conf\<close> into the receiver \<open>c\<close> and runs the body on the copy, and the two methods with
  a pointer receiver are called on the \<open>Mail\<close> and \<open>Slack\<close> of that copy. No statement of
  the three bodies or of \<open>checkEmails\<close> assigns to a field, to an element of a slice or
  to an entry of a map (\<open>emails\<close> and the \<open>errs\<close> slices are local and built by
  \<open>append\<close> from an empty slice), so the call writes the logger and nothing else.
\<close>

record package_state =
  Conf :: Config
  logged :: logger

definition Conf_Validate :: "valid \<Rightarrow> package_state \<Rightarrow> bool \<times> package_state" where
  "Conf_Validate g st =
     (let c = Conf st;
          (ok, lg) = Config_Validate g c (logged st)
      in (ok, st\<lparr>logged := lg\<rparr>))"

subsection \<open>ServerInfo\<close>

definition IsContainer :: "ServerInfo \<Rightarrow> bool" where
  "IsContainer s = (0 < length (ContainerID (Container s)))"

definition IsLocal :: "ServerInfo \<Rightarrow> bool" where
  "IsLocal s = (Host s = ''localhost'' \<or> Host s = ''127.0.0.1'')"

text \<open>The receiver is a pointer: the model returns the updated struct.\<close>

definition SetContainer :: "ServerInfo \<Rightarrow> Container \<Rightarrow> ServerInfo" where
  "SetContainer s d = s\<lparr>Container := d\<rparr>"

subsection \<open>Zero values\<close>

text \<open>
  What Go gives a variable of each struct type that is declared and not initialised
  (\<open>var Conf Config\<close>): empty strings, nil slices and maps, false, zero.
\<close>

definition Container_zero :: Container where
  "Container_zero = \<lparr>ContainerID = [], Name = [], Type = []\<rparr>"

definition ServerInfo_zero :: ServerInfo where
  "ServerInfo_zero = \<lparr>ServerName = [], ServerInfo.User = [], Host = [], Port = [], KeyPath = [],
     KeyPassword = [], CpeNames = [], Containers = [], Optional = [], LogMsgAnsiColor = [],
     Container = Container_zero, Family = []\<rparr>"

definition smtpConf_zero :: smtpConf where
  "smtpConf_zero = \<lparr>SMTPAddr = [], SMTPPort = [], smtpConf.User = [], Password = [], From = [],
     To = [], Cc = [], SubjectPrefix = [], smtpConf.UseThisTime = False\<rparr>"

definition SlackConf_zero :: SlackConf where
  "SlackConf_zero = \<lparr>HookURL = [], Channel = [], IconEmoji = [], AuthUser = [],
     NotifyUsers = [], Text = [], SlackConf.UseThisTime = False\<rparr>"

definition Config_zero :: Config where
  "Config_zero = \<lparr>Debug = False, DebugSQL = False, Lang = [], Mail = smtpConf_zero,
     Slack = SlackConf_zero, Default = ServerInfo_zero, Servers = Map.empty,
     CveDictionaryURL = [], CvssScoreOver = 0, IgnoreUnscoredCves = False, SSHExternal = False,
     HTTPProxy = [], JSONBaseDir = [], CveDBPath = [], AwsProfile = [], AwsRegion = [],
     S3Bucket = [], AzureAccount = [], AzureKey = [], AzureContainer = []\<rparr>"

subsection \<open>The structural check, as the specification describes it\<close>

text \<open>
  The fields that carry a \<open>valid:"..."\<close> tag in the struct declarations, each with its
  name, its tag and its value: \<open>CveDictionaryURL\<close> and \<open>HTTPProxy\<close> (url) in \<open>Config\<close>,
  \<open>SMTPPort\<close> (port) in \<open>smtpConf\<close>, \<open>HookURL\<close> (url) in \<open>SlackConf\<close>.
\<close>

fun tagged_fields :: "structs \<Rightarrow> (string \<times> string \<times> string) list" where
  "tagged_fields (OfConfig c) =
     [(''CveDictionaryURL'', ''url'', CveDictionaryURL c), (''HTTPProxy'', ''url'', HTTPProxy c)]"
| "tagged_fields (OfSmtp c) = [(''SMTPPort'', ''port'', SMTPPort c)]"
| "tagged_fields (OfSlack c) = [(''HookURL'', ''url'', HookURL c)]"

text \<open>
  Modelled from the spec: \<open>ValidateStruct\<close> of the govalidator library, which is not
  under src/. The specification says of it: "Run general structural validation over all
  fields tagged with a format constraint (currently: CveDictionaryURL and HTTPProxy must
  be well-formed URLs when non-empty). Any failure here is appended as a single
  aggregated error." So an empty field passes, a non-empty one must satisfy the format
  its tag names (\<open>wellformed tag value\<close>, the library's own test of a url or a port, a
  parameter here), and the fields that fail are reported together in one error.
\<close>

definition ValidateStruct_tags ::
  "(string \<Rightarrow> string \<Rightarrow> bool) \<Rightarrow> structs \<Rightarrow> bool \<times> string list option" where
  "ValidateStruct_tags wellformed s =
     (let failed = [name. (name, tag, v) \<leftarrow> tagged_fields s, v \<noteq> [], \<not> wellformed tag v]
      in (failed = [], if failed = [] then None else Some failed))"

section \<open>Properties\<close>

subsection \<open>What each function computes\<close>

lemma checkEmails_loop_acc:
  "checkEmails_loop g emails errs =
     errs @ map (\<lambda>addr. Errorf (''Invalid email address. email: '' @ addr))
              (filter (\<lambda>addr. \<not> IsEmail g addr) (takeWhile (\<lambda>addr. addr \<noteq> []) emails))"
  by (induction emails arbitrary: errs) simp_all

lemma fold_log_Error: "fold (\<lambda>err lg. log_Error lg err) errs lg = lg @ errs"
  by (induction errs arbitrary: lg) (simp_all add: log_Error_def)

lemma append_if_nonempty: "(if 0 < length ys then xs @ ys else xs) = xs @ ys"
  by simp

lemma append_if: "(if b then xs @ ys else xs) = xs @ (if b then ys else [])"
  by simp

lemma append_case:
  "(case r of None \<Rightarrow> xs | Some es \<Rightarrow> xs @ [f es])
     = xs @ (case r of None \<Rightarrow> [] | Some es \<Rightarrow> [f es])"
  by (cases r) simp_all

lemma smtpConf_Validate_enabled:
  "smtpConf.UseThisTime c \<Longrightarrow>
   smtpConf_Validate g c =
     checkEmails g (From c # To c @ Cc c)
     @ (if SMTPAddr c = [] then [Errorf ''smtpAddr must not be empty''] else [])
     @ (if SMTPPort c = [] then [Errorf ''smtpPort must not be empty''] else [])
     @ (if To c = [] then [Errorf ''To required at least one address''] else [])
     @ (if From c = [] then [Errorf ''From required at least one address''] else [])
     @ (case snd (ValidateStruct g (OfSmtp c)) of None \<Rightarrow> [] | Some es \<Rightarrow> [Errors es])"
  unfolding smtpConf_Validate_def Let_def append_if_nonempty append_case
  by (simp split del: if_split add: append_if)

lemma SlackConf_Validate_enabled:
  "SlackConf.UseThisTime c \<Longrightarrow>
   SlackConf_Validate g c =
     (if HookURL c = [] then [Errorf ''hookURL must not be empty''] else [])
     @ (if Channel c = [] then [Errorf ''channel must not be empty'']
        else if \<not> (HasPrefix (Channel c) ''#'' \<or> Channel c = ''${servername}'')
        then [Errorf (''channel's prefix must be '#', channel: '' @ Channel c)] else [])
     @ (if AuthUser c = [] then [Errorf ''authUser must not be empty''] else [])
     @ (case snd (ValidateStruct g (OfSlack c)) of None \<Rightarrow> [] | Some es \<Rightarrow> [Errors es])"
  by (simp add: SlackConf_Validate_def Let_def split: option.split)

lemma Config_Validate_eq:
  "Config_Validate g c lg =
     (let errs =
        (if JSONBaseDir c \<noteq> [] \<and> \<not> fst (IsFilePath g (JSONBaseDir c))
         then [Errorf (''JSON base directory must be a *Absolute* file path. jsonBaseDir: ''
                        @ JSONBaseDir c)] else [])
        @ (if CveDBPath c \<noteq> [] \<and> \<not> fst (IsFilePath g (CveDBPath c))
           then [Errorf (''SQLite3 DB(Cve Dictionary) path must be a *Absolute* file path. dbpath: ''
                        @ CveDBPath c)] else [])
        @ (case snd (ValidateStruct g (OfConfig c)) of None \<Rightarrow> [] | Some es \<Rightarrow> [Errors es])
        @ smtpConf_Validate g (Mail c)
        @ SlackConf_Validate g (Slack c)
      in (errs = [], lg @ errs))"
  unfolding Config_Validate_def Let_def append_if_nonempty append_case fold_log_Error
  by simp

lemma Conf_Validate_eq:
  "Conf_Validate g st =
     (fst (Config_Validate g (Conf st) (logged st)),
      st\<lparr>logged := snd (Config_Validate g (Conf st) (logged st))\<rparr>)"
  by (simp add: Conf_Validate_def Let_def split_beta)

lemma Conf_Validate_twice_aux:
  assumes "Conf_Validate g st = (ok, st')"
    and "Conf_Validate g st' = (ok', st'')"
    and "\<And>lg. Config_Validate g (Conf st) lg = (b, lg @ errs)"
  shows "Conf st' = Conf st \<and> Conf st'' = Conf st \<and> ok = b \<and> ok' = ok
       \<and> logged st' = logged st @ errs \<and> logged st'' = logged st' @ errs"
proof -
  from assms(1) assms(3) have 1: "ok = b" "st' = st\<lparr>logged := logged st @ errs\<rparr>"
    by (simp_all add: Conf_Validate_eq)
  from assms(2) assms(3) 1 have 2: "ok' = b" "st'' = st'\<lparr>logged := logged st' @ errs\<rparr>"
    by (simp_all add: Conf_Validate_eq)
  from 1 2 show ?thesis by simp
qed

lemma HasPrefix_hash: "HasPrefix s ''#'' = (take 1 s = ''#'')"
  by (cases s) (simp_all add: HasPrefix_def)

subsection \<open>Config.Validate collects every violation\<close>

text \<open>
  C1. For every Config, \<open>Validate\<close> returns true if and only if the sequence of errors it
  collected is empty. It runs all five checks (the path of \<open>JSONBaseDir\<close>, the path of
  \<open>CveDBPath\<close>, the structural check, the mail block, the chat block) and appends what
  each one finds, in that order, without stopping at the first error: the errors it
  hands to the logger are the five results one after the other.
\<close>

theorem Config_Validate_collects_every_violation:
  "(let jsonErrs = (if JSONBaseDir c \<noteq> [] \<and> \<not> fst (IsFilePath g (JSONBaseDir c))
                    then [Errorf (''JSON base directory must be a *Absolute* file path. jsonBaseDir: ''
                                   @ JSONBaseDir c)] else []);
        dbErrs = (if CveDBPath c \<noteq> [] \<and> \<not> fst (IsFilePath g (CveDBPath c))
                  then [Errorf (''SQLite3 DB(Cve Dictionary) path must be a *Absolute* file path. dbpath: ''
                                 @ CveDBPath c)] else []);
        structErrs = (case snd (ValidateStruct g (OfConfig c)) of
                        None \<Rightarrow> [] | Some es \<Rightarrow> [Errors es]);
        errs = jsonErrs @ dbErrs @ structErrs
                 @ smtpConf_Validate g (Mail c) @ SlackConf_Validate g (Slack c)
    in snd (Config_Validate g c lg) = lg @ errs
       \<and> fst (Config_Validate g c lg) = (errs = [])
       \<and> length errs = length jsonErrs + length dbErrs + length structErrs
            + length (smtpConf_Validate g (Mail c)) + length (SlackConf_Validate g (Slack c)))"
  by (simp add: Config_Validate_eq Let_def)

text \<open>
  A Config in which four of the five checks fail: all the errors are logged, in the
  order of the checks, after what the logger held before.
\<close>

theorem Config_Validate_collects_every_violation_witness:
  "Config_Validate
     \<lparr>IsFilePath = (\<lambda>s. (take 1 s = ''/'', 0)), IsEmail = (\<lambda>s. CHR ''@'' \<in> set s),
      ValidateStruct = (\<lambda>s. case s of OfConfig c \<Rightarrow> (False, Some [''HTTPProxy''])
                                | OfSmtp c \<Rightarrow> (True, None) | OfSlack c \<Rightarrow> (True, None))\<rparr>
     (Config_zero\<lparr>JSONBaseDir := ''relative/path'', CveDBPath := ''cve.sqlite3'',
        HTTPProxy := ''no proxy'',
        Mail := smtpConf_zero\<lparr>smtpConf.UseThisTime := True, From := ''vuls'',
          To := [''ops@example.com''], SMTPAddr := ''smtp.example.com''\<rparr>,
        Slack := SlackConf_zero\<lparr>SlackConf.UseThisTime := True, Channel := ''#general'',
          HookURL := ''https://hooks.example.com/T0'', AuthUser := ''vuls''\<rparr>\<rparr>)
     [Errorf ''earlier line'']
   = (False,
      [Errorf ''earlier line'',
       Errorf ''JSON base directory must be a *Absolute* file path. jsonBaseDir: relative/path'',
       Errorf ''SQLite3 DB(Cve Dictionary) path must be a *Absolute* file path. dbpath: cve.sqlite3'',
       Errors [''HTTPProxy''],
       Errorf ''Invalid email address. email: vuls'',
       Errorf ''smtpPort must not be empty''])"
  using Config_Validate_collects_every_violation
    [of "Config_zero\<lparr>JSONBaseDir := ''relative/path'', CveDBPath := ''cve.sqlite3'',
        HTTPProxy := ''no proxy'',
        Mail := smtpConf_zero\<lparr>smtpConf.UseThisTime := True, From := ''vuls'',
          To := [''ops@example.com''], SMTPAddr := ''smtp.example.com''\<rparr>,
        Slack := SlackConf_zero\<lparr>SlackConf.UseThisTime := True, Channel := ''#general'',
          HookURL := ''https://hooks.example.com/T0'', AuthUser := ''vuls''\<rparr>\<rparr>"
       "\<lparr>IsFilePath = (\<lambda>s. (take 1 s = ''/'', 0)), IsEmail = (\<lambda>s. CHR ''@'' \<in> set s),
      ValidateStruct = (\<lambda>s. case s of OfConfig c \<Rightarrow> (False, Some [''HTTPProxy''])
                                | OfSmtp c \<Rightarrow> (True, None) | OfSlack c \<Rightarrow> (True, None))\<rparr>"
       "[Errorf ''earlier line'']"]
  by (simp add: Let_def prod_eq_iff Config_zero_def smtpConf_zero_def SlackConf_zero_def
      smtpConf_Validate_def SlackConf_Validate_def checkEmails_def HasPrefix_def)

subsection \<open>The mail block\<close>

text \<open>
  C2. For every enabled mail block, the email pass goes through the list
  \<open>[From] + To + Cc\<close> in that order. Each address before the first empty entry that
  is not a valid email address gives its own error, which names the address; the first
  empty entry ends the pass, so nothing after it is checked. The checks of the missing
  fields and the structural check run after the pass all the same.
\<close>

theorem smtpConf_Validate_email_pass:
  assumes "smtpConf.UseThisTime c"
  shows "smtpConf_Validate g c =
     map (\<lambda>addr. Errorf (''Invalid email address. email: '' @ addr))
       (filter (\<lambda>addr. \<not> IsEmail g addr)
          (takeWhile (\<lambda>addr. addr \<noteq> []) (From c # To c @ Cc c)))
     @ (if SMTPAddr c = [] then [Errorf ''smtpAddr must not be empty''] else [])
     @ (if SMTPPort c = [] then [Errorf ''smtpPort must not be empty''] else [])
     @ (if To c = [] then [Errorf ''To required at least one address''] else [])
     @ (if From c = [] then [Errorf ''From required at least one address''] else [])
     @ (case snd (ValidateStruct g (OfSmtp c)) of None \<Rightarrow> [] | Some es \<Rightarrow> [Errors es])"
  using assms
  by (simp only: smtpConf_Validate_enabled checkEmails_def checkEmails_loop_acc append_Nil)

text \<open>
  An enabled block whose \<open>To\<close> list has an empty third entry: \<open>vuls\<close> and \<open>root\<close> are
  reported, \<open>nobody\<close> and \<open>audit\<close>, which come after the empty entry, are not, and the
  missing address and port of the server are reported after them.
\<close>

theorem smtpConf_Validate_email_pass_witness:
  "smtpConf.UseThisTime
     (smtpConf_zero\<lparr>smtpConf.UseThisTime := True, From := ''vuls'',
        To := [''ops@example.com'', ''root'', [], ''nobody''], Cc := [''audit'']\<rparr>)
   \<and> smtpConf_Validate
     \<lparr>IsFilePath = (\<lambda>s. (take 1 s = ''/'', 0)), IsEmail = (\<lambda>s. CHR ''@'' \<in> set s),
      ValidateStruct = (\<lambda>s. (True, None))\<rparr>
     (smtpConf_zero\<lparr>smtpConf.UseThisTime := True, From := ''vuls'',
        To := [''ops@example.com'', ''root'', [], ''nobody''], Cc := [''audit'']\<rparr>)
   = [Errorf ''Invalid email address. email: vuls'',
      Errorf ''Invalid email address. email: root'',
      Errorf ''smtpAddr must not be empty'',
      Errorf ''smtpPort must not be empty'']"
  using smtpConf_Validate_email_pass
    [of "smtpConf_zero\<lparr>smtpConf.UseThisTime := True, From := ''vuls'',
        To := [''ops@example.com'', ''root'', [], ''nobody''], Cc := [''audit'']\<rparr>"
       "\<lparr>IsFilePath = (\<lambda>s. (take 1 s = ''/'', 0)), IsEmail = (\<lambda>s. CHR ''@'' \<in> set s),
      ValidateStruct = (\<lambda>s. (True, None))\<rparr>"]
  by (simp add: smtpConf_zero_def)

text \<open>
  C6. For every enabled mail block, the error "smtpAddr must not be empty" is among the
  errors returned if and only if \<open>SMTPAddr\<close> is empty, "smtpPort must not be empty" if
  and only if \<open>SMTPPort\<close> is empty, "To required at least one address" if and only if
  \<open>To\<close> has no entry, and "From required at least one address" if and only if \<open>From\<close>
  is empty, whatever the other fields hold.
\<close>

theorem smtpConf_Validate_missing_fields:
  assumes "smtpConf.UseThisTime c"
  shows "(Errorf ''smtpAddr must not be empty'' \<in> set (smtpConf_Validate g c)) = (SMTPAddr c = [])
    \<and> (Errorf ''smtpPort must not be empty'' \<in> set (smtpConf_Validate g c)) = (SMTPPort c = [])
    \<and> (Errorf ''To required at least one address'' \<in> set (smtpConf_Validate g c)) = (To c = [])
    \<and> (Errorf ''From required at least one address'' \<in> set (smtpConf_Validate g c)) = (From c = [])"
  using assms
  by (auto simp: smtpConf_Validate_enabled checkEmails_def checkEmails_loop_acc split: option.splits)

text \<open>
  An enabled block with a sender and a server address, and neither a port nor a
  recipient: the two errors of the missing fields are there, the other two are not.
\<close>

theorem smtpConf_Validate_missing_fields_witness:
  "smtpConf.UseThisTime (smtpConf_zero\<lparr>smtpConf.UseThisTime := True, From := ''a@b.com'',
      SMTPAddr := ''smtp.example.com''\<rparr>)
   \<and> Errorf ''smtpAddr must not be empty'' \<notin> set (smtpConf_Validate
      \<lparr>IsFilePath = (\<lambda>s. (take 1 s = ''/'', 0)), IsEmail = (\<lambda>s. CHR ''@'' \<in> set s),
       ValidateStruct = (\<lambda>s. (True, None))\<rparr>
      (smtpConf_zero\<lparr>smtpConf.UseThisTime := True, From := ''a@b.com'',
         SMTPAddr := ''smtp.example.com''\<rparr>))
   \<and> Errorf ''smtpPort must not be empty'' \<in> set (smtpConf_Validate
      \<lparr>IsFilePath = (\<lambda>s. (take 1 s = ''/'', 0)), IsEmail = (\<lambda>s. CHR ''@'' \<in> set s),
       ValidateStruct = (\<lambda>s. (True, None))\<rparr>
      (smtpConf_zero\<lparr>smtpConf.UseThisTime := True, From := ''a@b.com'',
         SMTPAddr := ''smtp.example.com''\<rparr>))
   \<and> Errorf ''To required at least one address'' \<in> set (smtpConf_Validate
      \<lparr>IsFilePath = (\<lambda>s. (take 1 s = ''/'', 0)), IsEmail = (\<lambda>s. CHR ''@'' \<in> set s),
       ValidateStruct = (\<lambda>s. (True, None))\<rparr>
      (smtpConf_zero\<lparr>smtpConf.UseThisTime := True, From := ''a@b.com'',
         SMTPAddr := ''smtp.example.com''\<rparr>))
   \<and> Errorf ''From required at least one address'' \<notin> set (smtpConf_Validate
      \<lparr>IsFilePath = (\<lambda>s. (take 1 s = ''/'', 0)), IsEmail = (\<lambda>s. CHR ''@'' \<in> set s),
       ValidateStruct = (\<lambda>s. (True, None))\<rparr>
      (smtpConf_zero\<lparr>smtpConf.UseThisTime := True, From := ''a@b.com'',
         SMTPAddr := ''smtp.example.com''\<rparr>))"
  using smtpConf_Validate_missing_fields
     [of "smtpConf_zero\<lparr>smtpConf.UseThisTime := True, From := ''a@b.com'',
         SMTPAddr := ''smtp.example.com''\<rparr>"
      "\<lparr>IsFilePath = (\<lambda>s. (take 1 s = ''/'', 0)), IsEmail = (\<lambda>s. CHR ''@'' \<in> set s),
       ValidateStruct = (\<lambda>s. (True, None))\<rparr>"]
  by (simp add: smtpConf_zero_def)

subsection \<open>Blocks that are not enabled\<close>

text \<open>
  C3. For every mail block and every chat block whose \<open>UseThisTime\<close> is false,
  \<open>Validate\<close> returns no error, whatever the other fields hold.
\<close>

theorem disabled_blocks_yield_no_errors:
  "(\<not> smtpConf.UseThisTime m \<longrightarrow> smtpConf_Validate g m = [])
   \<and> (\<not> SlackConf.UseThisTime s \<longrightarrow> SlackConf_Validate g s = [])"
  by (simp add: smtpConf_Validate_def SlackConf_Validate_def)

text \<open>
  Two disabled blocks with fields that would fail every check, and collaborators that
  reject everything.
\<close>

theorem disabled_blocks_yield_no_errors_witness:
  "\<not> smtpConf.UseThisTime (smtpConf_zero\<lparr>From := ''not an address'', SMTPPort := ''port''\<rparr>)
   \<and> smtpConf_Validate
       \<lparr>IsFilePath = (\<lambda>s. (False, 0)), IsEmail = (\<lambda>s. False),
        ValidateStruct = (\<lambda>s. (False, Some [''SMTPPort'']))\<rparr>
       (smtpConf_zero\<lparr>From := ''not an address'', SMTPPort := ''port''\<rparr>) = []
   \<and> \<not> SlackConf.UseThisTime (SlackConf_zero\<lparr>Channel := ''general'', HookURL := ''hook''\<rparr>)
   \<and> SlackConf_Validate
       \<lparr>IsFilePath = (\<lambda>s. (False, 0)), IsEmail = (\<lambda>s. False),
        ValidateStruct = (\<lambda>s. (False, Some [''SMTPPort'']))\<rparr>
       (SlackConf_zero\<lparr>Channel := ''general'', HookURL := ''hook''\<rparr>) = []"
  using disabled_blocks_yield_no_errors
    [of "smtpConf_zero\<lparr>From := ''not an address'', SMTPPort := ''port''\<rparr>"
       "\<lparr>IsFilePath = (\<lambda>s. (False, 0)), IsEmail = (\<lambda>s. False),
        ValidateStruct = (\<lambda>s. (False, Some [''SMTPPort'']))\<rparr>"
       "SlackConf_zero\<lparr>Channel := ''general'', HookURL := ''hook''\<rparr>"]
  by (simp add: smtpConf_zero_def SlackConf_zero_def)

subsection \<open>The chat block\<close>

text \<open>
  C4. For every enabled chat block: the error "channel must not be empty" is returned
  when \<open>Channel\<close> is empty (and only then); when \<open>Channel\<close> is not empty, the error
  about the prefix of the channel, which names the channel, is returned if and only if
  \<open>Channel\<close> neither starts with \<open>#\<close> nor is the literal \<open>${servername}\<close>. The number of
  errors about the prefix is one in that case and zero otherwise: one for \<open>general\<close>,
  none for \<open>#general\<close> and for \<open>${servername}\<close>.
\<close>

theorem SlackConf_Validate_channel:
  assumes "SlackConf.UseThisTime c"
  shows "(Errorf ''channel must not be empty'' \<in> set (SlackConf_Validate g c)) = (Channel c = [])
    \<and> (Channel c \<noteq> [] \<longrightarrow>
         (Errorf (''channel's prefix must be '#', channel: '' @ Channel c)
            \<in> set (SlackConf_Validate g c))
         = (\<not> (take 1 (Channel c) = ''#'' \<or> Channel c = ''${servername}'')))
    \<and> length (filter (\<lambda>e. case e of
             Errorf m \<Rightarrow> HasPrefix m ''channel's prefix must be '#', channel: ''
           | Errors es \<Rightarrow> False) (SlackConf_Validate g c))
         = (if Channel c \<noteq> [] \<and> \<not> (take 1 (Channel c) = ''#'' \<or> Channel c = ''${servername}'')
            then 1 else 0)"
  using assms
  by (auto simp: SlackConf_Validate_enabled HasPrefix_hash HasPrefix_def split: option.splits)

text \<open>The three channels of the claim, in an enabled block.\<close>

theorem SlackConf_Validate_channel_witness:
  "SlackConf.UseThisTime (SlackConf_zero\<lparr>SlackConf.UseThisTime := True, Channel := ''general''\<rparr>)
   \<and> length (filter (\<lambda>e. case e of
             Errorf m \<Rightarrow> HasPrefix m ''channel's prefix must be '#', channel: ''
           | Errors es \<Rightarrow> False)
        (SlackConf_Validate
          \<lparr>IsFilePath = (\<lambda>s. (take 1 s = ''/'', 0)), IsEmail = (\<lambda>s. CHR ''@'' \<in> set s),
           ValidateStruct = (\<lambda>s. (True, None))\<rparr>
          (SlackConf_zero\<lparr>SlackConf.UseThisTime := True, Channel := ''general''\<rparr>))) = 1
   \<and> Errorf ''channel's prefix must be '#', channel: general''
        \<in> set (SlackConf_Validate
          \<lparr>IsFilePath = (\<lambda>s. (take 1 s = ''/'', 0)), IsEmail = (\<lambda>s. CHR ''@'' \<in> set s),
           ValidateStruct = (\<lambda>s. (True, None))\<rparr>
          (SlackConf_zero\<lparr>SlackConf.UseThisTime := True, Channel := ''general''\<rparr>))
   \<and> length (filter (\<lambda>e. case e of
             Errorf m \<Rightarrow> HasPrefix m ''channel's prefix must be '#', channel: ''
           | Errors es \<Rightarrow> False)
        (SlackConf_Validate
          \<lparr>IsFilePath = (\<lambda>s. (take 1 s = ''/'', 0)), IsEmail = (\<lambda>s. CHR ''@'' \<in> set s),
           ValidateStruct = (\<lambda>s. (True, None))\<rparr>
          (SlackConf_zero\<lparr>SlackConf.UseThisTime := True, Channel := ''#general''\<rparr>))) = 0
   \<and> length (filter (\<lambda>e. case e of
             Errorf m \<Rightarrow> HasPrefix m ''channel's prefix must be '#', channel: ''
           | Errors es \<Rightarrow> False)
        (SlackConf_Validate
          \<lparr>IsFilePath = (\<lambda>s. (take 1 s = ''/'', 0)), IsEmail = (\<lambda>s. CHR ''@'' \<in> set s),
           ValidateStruct = (\<lambda>s. (True, None))\<rparr>
          (SlackConf_zero\<lparr>SlackConf.UseThisTime := True, Channel := ''${servername}''\<rparr>))) = 0"
  using
    SlackConf_Validate_channel
      [of "SlackConf_zero\<lparr>SlackConf.UseThisTime := True, Channel := ''general''\<rparr>"
       "\<lparr>IsFilePath = (\<lambda>s. (take 1 s = ''/'', 0)), IsEmail = (\<lambda>s. CHR ''@'' \<in> set s),
           ValidateStruct = (\<lambda>s. (True, None))\<rparr>"]
    SlackConf_Validate_channel
      [of "SlackConf_zero\<lparr>SlackConf.UseThisTime := True, Channel := ''#general''\<rparr>"
       "\<lparr>IsFilePath = (\<lambda>s. (take 1 s = ''/'', 0)), IsEmail = (\<lambda>s. CHR ''@'' \<in> set s),
           ValidateStruct = (\<lambda>s. (True, None))\<rparr>"]
    SlackConf_Validate_channel
      [of "SlackConf_zero\<lparr>SlackConf.UseThisTime := True, Channel := ''${servername}''\<rparr>"
       "\<lparr>IsFilePath = (\<lambda>s. (take 1 s = ''/'', 0)), IsEmail = (\<lambda>s. CHR ''@'' \<in> set s),
           ValidateStruct = (\<lambda>s. (True, None))\<rparr>"]
  by (simp add: SlackConf_zero_def)

subsection \<open>The two paths\<close>

text \<open>
  C5. For every Config whose \<open>JSONBaseDir\<close> (respectively \<open>CveDBPath\<close>) is not empty and
  is not accepted by \<open>IsFilePath\<close>, the library's test of an absolute file path,
  \<open>Validate\<close> logs an error that names the value and returns false. When the other path
  is empty or accepted, the structural check passes and both blocks return no error,
  that error is the only one.
\<close>

theorem Config_Validate_malformed_path:
  "(JSONBaseDir c \<noteq> [] \<and> \<not> fst (IsFilePath g (JSONBaseDir c)) \<longrightarrow>
      Errorf (''JSON base directory must be a *Absolute* file path. jsonBaseDir: '' @ JSONBaseDir c)
        \<in> set (drop (length lg) (snd (Config_Validate g c lg)))
      \<and> \<not> fst (Config_Validate g c lg)
      \<and> ((CveDBPath c = [] \<or> fst (IsFilePath g (CveDBPath c)))
           \<and> snd (ValidateStruct g (OfConfig c)) = None
           \<and> smtpConf_Validate g (Mail c) = [] \<and> SlackConf_Validate g (Slack c) = [] \<longrightarrow>
          snd (Config_Validate g c lg) = lg @ [Errorf
            (''JSON base directory must be a *Absolute* file path. jsonBaseDir: '' @ JSONBaseDir c)]))
   \<and> (CveDBPath c \<noteq> [] \<and> \<not> fst (IsFilePath g (CveDBPath c)) \<longrightarrow>
      Errorf (''SQLite3 DB(Cve Dictionary) path must be a *Absolute* file path. dbpath: '' @ CveDBPath c)
        \<in> set (drop (length lg) (snd (Config_Validate g c lg)))
      \<and> \<not> fst (Config_Validate g c lg)
      \<and> ((JSONBaseDir c = [] \<or> fst (IsFilePath g (JSONBaseDir c)))
           \<and> snd (ValidateStruct g (OfConfig c)) = None
           \<and> smtpConf_Validate g (Mail c) = [] \<and> SlackConf_Validate g (Slack c) = [] \<longrightarrow>
          snd (Config_Validate g c lg) = lg @ [Errorf
            (''SQLite3 DB(Cve Dictionary) path must be a *Absolute* file path. dbpath: '' @ CveDBPath c)]))"
  by (auto simp: Config_Validate_eq Let_def)

text \<open>
  One Config with a relative \<open>JSONBaseDir\<close> and one with a relative \<open>CveDBPath\<close>, the
  rest valid: each gives false and the one error of its path.
\<close>

theorem Config_Validate_malformed_path_witness:
  "Config_Validate
     \<lparr>IsFilePath = (\<lambda>s. (take 1 s = ''/'', 0)), IsEmail = (\<lambda>s. CHR ''@'' \<in> set s),
      ValidateStruct = (\<lambda>s. (True, None))\<rparr>
     (Config_zero\<lparr>JSONBaseDir := ''relative/path'', CveDBPath := ''/var/lib/cve.sqlite3''\<rparr>) []
   = (False,
      [Errorf ''JSON base directory must be a *Absolute* file path. jsonBaseDir: relative/path''])
   \<and> Config_Validate
     \<lparr>IsFilePath = (\<lambda>s. (take 1 s = ''/'', 0)), IsEmail = (\<lambda>s. CHR ''@'' \<in> set s),
      ValidateStruct = (\<lambda>s. (True, None))\<rparr>
     (Config_zero\<lparr>JSONBaseDir := ''/opt/vuls/results'', CveDBPath := ''cve.sqlite3''\<rparr>) []
   = (False,
      [Errorf ''SQLite3 DB(Cve Dictionary) path must be a *Absolute* file path. dbpath: cve.sqlite3''])"
  using
    Config_Validate_malformed_path
      [of "Config_zero\<lparr>JSONBaseDir := ''relative/path'', CveDBPath := ''/var/lib/cve.sqlite3''\<rparr>"
       "\<lparr>IsFilePath = (\<lambda>s. (take 1 s = ''/'', 0)), IsEmail = (\<lambda>s. CHR ''@'' \<in> set s),
      ValidateStruct = (\<lambda>s. (True, None))\<rparr>" "[]"]
    Config_Validate_malformed_path
      [of "Config_zero\<lparr>JSONBaseDir := ''/opt/vuls/results'', CveDBPath := ''cve.sqlite3''\<rparr>"
       "\<lparr>IsFilePath = (\<lambda>s. (take 1 s = ''/'', 0)), IsEmail = (\<lambda>s. CHR ''@'' \<in> set s),
      ValidateStruct = (\<lambda>s. (True, None))\<rparr>" "[]"]
  by (simp add: prod_eq_iff Config_zero_def smtpConf_zero_def SlackConf_zero_def
      smtpConf_Validate_def SlackConf_Validate_def)

subsection \<open>Running the validation again\<close>

text \<open>
  C8. Validation is deterministic and idempotent, and it never changes the Settings
  value. When \<open>Conf.Validate()\<close> runs twice in a row, from any state and with no write to
  \<open>Conf\<close> in between, \<open>Conf\<close> is after each run the value it was before the first, both
  runs return the same boolean, which is true if and only if the five checks find no
  error in that value, and each run hands to the logger the same errors in the same
  order: the results of the five checks on that value, one after the other.
\<close>

theorem Conf_Validate_twice:
  assumes "Conf_Validate g st = (ok, st')"
    and "Conf_Validate g st' = (ok', st'')"
  shows "(let c = Conf st;
        jsonErrs = (if JSONBaseDir c \<noteq> [] \<and> \<not> fst (IsFilePath g (JSONBaseDir c))
                    then [Errorf (''JSON base directory must be a *Absolute* file path. jsonBaseDir: ''
                                   @ JSONBaseDir c)] else []);
        dbErrs = (if CveDBPath c \<noteq> [] \<and> \<not> fst (IsFilePath g (CveDBPath c))
                  then [Errorf (''SQLite3 DB(Cve Dictionary) path must be a *Absolute* file path. dbpath: ''
                                 @ CveDBPath c)] else []);
        structErrs = (case snd (ValidateStruct g (OfConfig c)) of
                        None \<Rightarrow> [] | Some es \<Rightarrow> [Errors es]);
        errs = jsonErrs @ dbErrs @ structErrs
                 @ smtpConf_Validate g (Mail c) @ SlackConf_Validate g (Slack c)
    in Conf st' = Conf st \<and> Conf st'' = Conf st
       \<and> ok = (errs = []) \<and> ok' = ok
       \<and> logged st' = logged st @ errs
       \<and> logged st'' = logged st' @ errs)"
proof -
  define errs where "errs =
     (if JSONBaseDir (Conf st) \<noteq> [] \<and> \<not> fst (IsFilePath g (JSONBaseDir (Conf st)))
      then [Errorf (''JSON base directory must be a *Absolute* file path. jsonBaseDir: ''
                     @ JSONBaseDir (Conf st))] else [])
     @ (if CveDBPath (Conf st) \<noteq> [] \<and> \<not> fst (IsFilePath g (CveDBPath (Conf st)))
        then [Errorf (''SQLite3 DB(Cve Dictionary) path must be a *Absolute* file path. dbpath: ''
                     @ CveDBPath (Conf st))] else [])
     @ (case snd (ValidateStruct g (OfConfig (Conf st))) of None \<Rightarrow> [] | Some es \<Rightarrow> [Errors es])
     @ smtpConf_Validate g (Mail (Conf st))
     @ SlackConf_Validate g (Slack (Conf st))"
  have run: "Config_Validate g (Conf st) lg = (errs = [], lg @ errs)" for lg
    unfolding errs_def Config_Validate_eq Let_def ..
  have "Conf st' = Conf st \<and> Conf st'' = Conf st \<and> ok = (errs = []) \<and> ok' = ok
       \<and> logged st' = logged st @ errs \<and> logged st'' = logged st' @ errs"
    by (rule Conf_Validate_twice_aux [OF assms run])
  then show ?thesis
    unfolding Let_def errs_def by (simp only: append_assoc)
qed

text \<open>
  Two runs on a Settings value with a relative \<open>CveDBPath\<close>: false twice, the same line
  logged twice, and the Settings value as it was.
\<close>

theorem Conf_Validate_twice_witness:
  "Conf_Validate
     \<lparr>IsFilePath = (\<lambda>s. (take 1 s = ''/'', 0)), IsEmail = (\<lambda>s. CHR ''@'' \<in> set s),
      ValidateStruct = (\<lambda>s. (True, None))\<rparr>
     \<lparr>Conf = Config_zero\<lparr>CveDBPath := ''cve.sqlite3''\<rparr>, logged = []\<rparr>
   = (False,
      \<lparr>Conf = Config_zero\<lparr>CveDBPath := ''cve.sqlite3''\<rparr>,
       logged = [Errorf
         ''SQLite3 DB(Cve Dictionary) path must be a *Absolute* file path. dbpath: cve.sqlite3'']\<rparr>)
  \<and> Conf_Validate
     \<lparr>IsFilePath = (\<lambda>s. (take 1 s = ''/'', 0)), IsEmail = (\<lambda>s. CHR ''@'' \<in> set s),
      ValidateStruct = (\<lambda>s. (True, None))\<rparr>
     \<lparr>Conf = Config_zero\<lparr>CveDBPath := ''cve.sqlite3''\<rparr>,
       logged = [Errorf
         ''SQLite3 DB(Cve Dictionary) path must be a *Absolute* file path. dbpath: cve.sqlite3'']\<rparr>
   = (False,
      \<lparr>Conf = Config_zero\<lparr>CveDBPath := ''cve.sqlite3''\<rparr>,
       logged = [Errorf
         ''SQLite3 DB(Cve Dictionary) path must be a *Absolute* file path. dbpath: cve.sqlite3'',
        Errorf
         ''SQLite3 DB(Cve Dictionary) path must be a *Absolute* file path. dbpath: cve.sqlite3'']\<rparr>)"
proof -
  let ?g = "\<lparr>IsFilePath = (\<lambda>s. (take 1 s = ''/'', 0)), IsEmail = (\<lambda>s. CHR ''@'' \<in> set s),
      ValidateStruct = (\<lambda>s. (True, None))\<rparr>"
  let ?c = "Config_zero\<lparr>CveDBPath := ''cve.sqlite3''\<rparr>"
  let ?e = "Errorf ''SQLite3 DB(Cve Dictionary) path must be a *Absolute* file path. dbpath: cve.sqlite3''"
  obtain ok st' where first: "Conf_Validate ?g \<lparr>Conf = ?c, logged = []\<rparr> = (ok, st')"
    by (cases "Conf_Validate ?g \<lparr>Conf = ?c, logged = []\<rparr>")
  obtain ok' st'' where second: "Conf_Validate ?g st' = (ok', st'')"
    by (cases "Conf_Validate ?g st'")
  have mail: "smtpConf_Validate ?g (Mail Config_zero) = []"
    by (simp add: smtpConf_Validate_def Config_zero_def smtpConf_zero_def)
  have slack: "SlackConf_Validate ?g (Slack Config_zero) = []"
    by (simp add: SlackConf_Validate_def Config_zero_def SlackConf_zero_def)
  have paths: "JSONBaseDir ?c = []" "CveDBPath ?c = ''cve.sqlite3''"
    by (simp_all add: Config_zero_def)
  from Conf_Validate_twice [OF first second] mail slack
  have r: "Conf st' = ?c \<and> Conf st'' = ?c \<and> ok = False \<and> ok' = False
      \<and> logged st' = [?e] \<and> logged st'' = [?e, ?e]"
    by (simp add: Let_def paths)
  then have "st' = \<lparr>Conf = ?c, logged = [?e]\<rparr>" "st'' = \<lparr>Conf = ?c, logged = [?e, ?e]\<rparr>"
    by simp_all
  with first second r show ?thesis
    by simp
qed

subsection \<open>The zero value\<close>

text \<open>
  C10. For the zero value of Config (every string empty, every list empty, both
  \<open>UseThisTime\<close> flags false), \<open>Validate\<close> returns true and logs nothing: the two empty
  paths are not tested, the structural check skips the empty \<open>CveDictionaryURL\<close> and
  \<open>HTTPProxy\<close> whatever the format test of a non-empty value is, and both blocks return
  no error because they are not enabled.
\<close>

theorem Config_zero_is_valid:
  "Config_Validate (g\<lparr>ValidateStruct := ValidateStruct_tags wellformed\<rparr>) Config_zero lg = (True, lg)
   \<and> smtpConf_Validate g (Mail Config_zero) = []
   \<and> SlackConf_Validate g (Slack Config_zero) = []"
  by (simp add: Config_Validate_eq Let_def Config_zero_def smtpConf_zero_def SlackConf_zero_def
      ValidateStruct_tags_def smtpConf_Validate_def SlackConf_Validate_def)

text \<open>The zero value, with format tests that accept no value at all.\<close>

theorem Config_zero_is_valid_witness:
  "Config_Validate
     \<lparr>IsFilePath = (\<lambda>s. (False, 0)), IsEmail = (\<lambda>s. False),
      ValidateStruct = ValidateStruct_tags (\<lambda>tag v. False)\<rparr> Config_zero [] = (True, [])"
  using Config_zero_is_valid
    [where g = "\<lparr>IsFilePath = (\<lambda>s. (False, 0)), IsEmail = (\<lambda>s. False),
      ValidateStruct = (\<lambda>s. (True, None))\<rparr>" and wellformed = "\<lambda>tag v. False" and lg = "[]"]
  by simp

subsection \<open>ServerInfo\<close>

text \<open>
  C7. For every ServerInfo, \<open>IsContainer\<close> is true if and only if the \<open>ContainerID\<close> of
  its \<open>Container\<close> is not empty, and \<open>IsLocal\<close> is true if and only if \<open>Host\<close> is
  \<open>localhost\<close> or \<open>127.0.0.1\<close>; it is false for every other host, the empty one included.
\<close>

theorem IsContainer_IsLocal_iff:
  "IsContainer s = (ContainerID (Container s) \<noteq> [])
   \<and> IsLocal s = (Host s = ''localhost'' \<or> Host s = ''127.0.0.1'')
   \<and> \<not> IsLocal (s\<lparr>Host := []\<rparr>)"
  by (simp add: IsContainer_def IsLocal_def)

text \<open>A local container, a host that differs from \<open>localhost\<close> by a capital, the zero value.\<close>

theorem IsContainer_IsLocal_iff_witness:
  "IsContainer (ServerInfo_zero\<lparr>Host := ''127.0.0.1'',
      Container := Container_zero\<lparr>ContainerID := ''4f2a''\<rparr>\<rparr>)
   \<and> IsLocal (ServerInfo_zero\<lparr>Host := ''127.0.0.1'',
      Container := Container_zero\<lparr>ContainerID := ''4f2a''\<rparr>\<rparr>)
   \<and> \<not> IsContainer (ServerInfo_zero\<lparr>Host := ''Localhost''\<rparr>)
   \<and> \<not> IsLocal (ServerInfo_zero\<lparr>Host := ''Localhost''\<rparr>)
   \<and> \<not> IsLocal ServerInfo_zero"
  using
    IsContainer_IsLocal_iff [of "ServerInfo_zero\<lparr>Host := ''127.0.0.1'',
      Container := Container_zero\<lparr>ContainerID := ''4f2a''\<rparr>\<rparr>"]
    IsContainer_IsLocal_iff [of "ServerInfo_zero\<lparr>Host := ''Localhost''\<rparr>"]
    IsContainer_IsLocal_iff [of "ServerInfo_zero"]
  by (simp add: ServerInfo_zero_def Container_zero_def)

text \<open>
  C9. For every ServerInfo and every Container, \<open>SetContainer\<close> puts the given Container
  in the \<open>Container\<close> field, whatever was there before, checks nothing (it has no error
  result and no condition), and leaves every other field as it was.
\<close>

theorem SetContainer_frame:
  "Container (SetContainer s d) = d
   \<and> SetContainer (SetContainer s d') d = SetContainer s d
   \<and> ServerName (SetContainer s d) = ServerName s
   \<and> ServerInfo.User (SetContainer s d) = ServerInfo.User s
   \<and> Host (SetContainer s d) = Host s
   \<and> Port (SetContainer s d) = Port s
   \<and> KeyPath (SetContainer s d) = KeyPath s
   \<and> KeyPassword (SetContainer s d) = KeyPassword s
   \<and> CpeNames (SetContainer s d) = CpeNames s
   \<and> Containers (SetContainer s d) = Containers s
   \<and> Optional (SetContainer s d) = Optional s
   \<and> LogMsgAnsiColor (SetContainer s d) = LogMsgAnsiColor s
   \<and> Family (SetContainer s d) = Family s"
  by (simp add: SetContainer_def)

text \<open>A profile that already has a container gets another one, not a plausible one.\<close>

theorem SetContainer_frame_witness:
  "SetContainer (ServerInfo_zero\<lparr>ServerName := ''web01'', Host := ''10.0.0.7'',
       Container := \<lparr>ContainerID = ''old'', Name = ''db'', Type = ''lxd''\<rparr>\<rparr>)
     \<lparr>ContainerID = [], Name = ''app'', Type = ''unknown type''\<rparr>
   = ServerInfo_zero\<lparr>ServerName := ''web01'', Host := ''10.0.0.7'',
       Container := \<lparr>ContainerID = [], Name = ''app'', Type = ''unknown type''\<rparr>\<rparr>"
  using SetContainer_frame [of "ServerInfo_zero\<lparr>ServerName := ''web01'', Host := ''10.0.0.7'',
       Container := \<lparr>ContainerID = ''old'', Name = ''db'', Type = ''lxd''\<rparr>\<rparr>"
     "\<lparr>ContainerID = [], Name = ''app'', Type = ''unknown type''\<rparr>"]
  by (simp add: ServerInfo_zero_def ServerInfo.equality)

end
